theory Spec2Isabelle
  imports Complex_Main "HOL-Library.Sublist"
begin

section \<open>The resource-server example: example/client/api/api.go\<close>

text \<open>
  The file registers three handlers on a router: \<open>/public\<close>, \<open>/protected\<close> and
  \<open>/protected/{claim}/{value}\<close>, and a helper \<open>checkToken\<close>. Each handler is embedded as
  a function from the response writer it is handed and the request to the response writer
  it leaves behind. Calls that leave the file (the introspection call, the JSON encoder,
  the clock) are parameters of the handlers, so every theorem holds for whatever they
  return.
\<close>

subsection \<open>Go values the handlers touch\<close>

text \<open>A Go \<open>error\<close> is used by this file only through its \<open>Error()\<close> text.\<close>

datatype go_error = GoError string

fun Error :: "go_error \<Rightarrow> string" where
  "Error (GoError msg) = msg"

text \<open>The status constants of \<open>net/http\<close> that the file names, and the implicit 200.\<close>

definition StatusOK :: nat where
  "StatusOK = 200"

definition StatusUnauthorized :: nat where
  "StatusUnauthorized = 401"

definition StatusForbidden :: nat where
  "StatusForbidden = 403"

definition StatusInternalServerError :: nat where
  "StatusInternalServerError = 500"

text \<open>
  Modelled from the spec: \<open>oidc.PrefixBearer\<close> is declared in the repository's package
  \<open>pkg/oidc\<close>, which is not among the sources at hand. The specification gives its value:
  the exact, case-sensitive prefix \<open>Bearer\<close> followed by one space.
\<close>

definition PrefixBearer :: string where
  "PrefixBearer = ''Bearer ''"

text \<open>
  Modelled from the spec: \<open>oidc.IntrospectionResponse\<close> is declared in \<open>pkg/oidc\<close> as well.
  The specification describes it as an \<open>active\<close> flag and a mapping from claim names to
  values of arbitrary type, a tagged variant of string, number, boolean, null and nested
  mapping. Of these the handlers read \<open>Claims\<close> only.
\<close>

datatype claim_value =
    CString string
  | CNumber real
  | CBool bool
  | CNull
  | CMap "(string \<times> claim_value) list"

record IntrospectionResponse =
  Active :: bool
  Claims :: "string \<rightharpoonup> claim_value"

subsection \<open>The request\<close>

text \<open>
  Of the request the handlers read the header and the two URL parameters that the router
  binds. Header names are compared without regard to case by \<open>net/http\<close>; the map below is
  keyed by the lower-case name and holds the values of each header in order.
\<close>

record request =
  Header :: "string \<rightharpoonup> string list"
  URLParams :: "string \<rightharpoonup> string"

text \<open>\<open>Header.Get\<close>: the first value of the header, the empty string when there is none.\<close>

definition Header_Get :: "(string \<rightharpoonup> string list) \<Rightarrow> string \<Rightarrow> string" where
  "Header_Get h key =
     (case h key of
        None \<Rightarrow> []
      | Some vs \<Rightarrow> (case vs of [] \<Rightarrow> [] | v # _ \<Rightarrow> v))"

text \<open>\<open>chi.URLParam\<close>: the value bound to the parameter, the empty string when unbound.\<close>

definition URLParam :: "'a request_scheme \<Rightarrow> string \<Rightarrow> string" where
  "URLParam r key = (case URLParams r key of None \<Rightarrow> [] | Some v \<Rightarrow> v)"

subsection \<open>The response writer\<close>

text \<open>
  A response writer holds the status line once it is written and the body bytes written so
  far. \<open>WriteHeader\<close> takes effect once; \<open>Write\<close> sends status 200 first when no status has
  been sent; \<open>http.Error\<close> sends the status and then prints the message with
  \<open>fmt.Fprintln\<close>, that is, followed by a line feed.
\<close>

record ResponseWriter =
  status :: "nat option"
  body :: string

definition new_writer :: ResponseWriter where
  "new_writer = \<lparr>status = None, body = []\<rparr>"

definition WriteHeader :: "ResponseWriter \<Rightarrow> nat \<Rightarrow> ResponseWriter" where
  "WriteHeader w code = (if status w = None then w\<lparr>status := Some code\<rparr> else w)"

definition Write :: "ResponseWriter \<Rightarrow> string \<Rightarrow> ResponseWriter" where
  "Write w data = (let w' = WriteHeader w StatusOK in w'\<lparr>body := body w' @ data\<rparr>)"

definition fmt_Fprintln :: "ResponseWriter \<Rightarrow> string \<Rightarrow> ResponseWriter" where
  "fmt_Fprintln w s = Write w (s @ [CHR 0x0A])"

definition http_Error :: "ResponseWriter \<Rightarrow> string \<Rightarrow> nat \<Rightarrow> ResponseWriter" where
  "http_Error w msg code = fmt_Fprintln (WriteHeader w code) msg"

text \<open>The status the client receives: the one written, 200 when the handler wrote none.\<close>

definition response_status :: "ResponseWriter \<Rightarrow> nat" where
  "response_status w = (case status w of None \<Rightarrow> StatusOK | Some code \<Rightarrow> code)"

subsection \<open>Package \<open>strings\<close>\<close>

definition strings_HasPrefix :: "string \<Rightarrow> string \<Rightarrow> bool" where
  "strings_HasPrefix s pre \<longleftrightarrow> length pre \<le> length s \<and> take (length pre) s = pre"

definition strings_TrimPrefix :: "string \<Rightarrow> string \<Rightarrow> string" where
  "strings_TrimPrefix s pre = (if strings_HasPrefix s pre then drop (length pre) s else s)"

subsection \<open>\<open>checkToken\<close>\<close>

text \<open>
  The Go function writes to \<open>w\<close> and returns \<open>(bool, string)\<close>; here the writer it leaves
  is the first component of the result.
\<close>

definition checkToken :: "ResponseWriter \<Rightarrow> 'a request_scheme \<Rightarrow> ResponseWriter \<times> bool \<times> string" where
  "checkToken w r =
     (let auth = Header_Get (Header r) ''authorization'' in
      if auth = [] then (http_Error w ''auth header missing'' StatusUnauthorized, False, [])
      else if \<not> strings_HasPrefix auth PrefixBearer
        then (http_Error w ''invalid header'' StatusUnauthorized, False, [])
      else (w, True, strings_TrimPrefix auth PrefixBearer))"

subsection \<open>The handlers\<close>

text \<open>
  \<open>rs.Introspect\<close> is the parameter \<open>Introspect\<close>: what the call returns for a token, an
  error or a response. \<open>json.Marshal\<close> is the parameter \<open>json_Marshal\<close>, and the text of
  \<open>time.Now()\<close> is \<open>now\<close>. Beside the writer, the two protected handlers return the tokens
  they passed to \<open>rs.Introspect\<close>, in order, so that making no call is observable.
\<close>

definition public_handler :: "string \<Rightarrow> ResponseWriter \<Rightarrow> 'a request_scheme \<Rightarrow> ResponseWriter" where
  "public_handler now w r = Write w (''OK '' @ now)"

definition protected_handler ::
  "(string \<Rightarrow> go_error + IntrospectionResponse) \<Rightarrow> (IntrospectionResponse \<Rightarrow> go_error + string) \<Rightarrow>
   ResponseWriter \<Rightarrow> 'a request_scheme \<Rightarrow> ResponseWriter \<times> string list" where
  "protected_handler Introspect json_Marshal w r =
     (case checkToken w r of
        (w1, ok, token) \<Rightarrow>
          if \<not> ok then (w1, [])
          else (case Introspect token of
                  Inl err \<Rightarrow> (http_Error w1 (Error err) StatusForbidden, [token])
                | Inr resp \<Rightarrow>
                    (case json_Marshal resp of
                       Inl err \<Rightarrow> (http_Error w1 (Error err) StatusInternalServerError, [token])
                     | Inr data \<Rightarrow> (Write w1 data, [token]))))"

text \<open>
  The type assertion \<open>resp.Claims[requestedClaim].(string)\<close> in its two-result form: the
  string and \<open>true\<close> when the key holds a string, the empty string and \<open>false\<close> when the key
  is absent or holds a value of another type.
\<close>

definition assert_string :: "claim_value option \<Rightarrow> string \<times> bool" where
  "assert_string v = (case v of Some (CString s) \<Rightarrow> (s, True) | _ \<Rightarrow> ([], False))"

definition protected_claim_handler ::
  "(string \<Rightarrow> go_error + IntrospectionResponse) \<Rightarrow>
   ResponseWriter \<Rightarrow> 'a request_scheme \<Rightarrow> ResponseWriter \<times> string list" where
  "protected_claim_handler Introspect w r =
     (case checkToken w r of
        (w1, ok, token) \<Rightarrow>
          if \<not> ok then (w1, [])
          else (case Introspect token of
                  Inl err \<Rightarrow> (http_Error w1 (Error err) StatusForbidden, [token])
                | Inr resp \<Rightarrow>
                    (let requestedClaim = URLParam r ''claim'';
                         requestedValue = URLParam r ''value''
                     in case assert_string (Claims resp requestedClaim) of
                          (val, ok') \<Rightarrow>
                            if \<not> ok' \<or> val = [] \<or> val \<noteq> requestedValue
                            then (http_Error w1 ''claim does not match'' StatusForbidden, [token])
                            else (Write w1 (''authorized with value '' @ val), [token]))))"

subsection \<open>The claim matcher as the specification words it\<close>

text \<open>
  The specification describes the claim check as a matcher with four kinds of failure.
  The source has no such type; the function below follows the specification's words
  (absent, present but not a string, the empty string, a string unequal to the requested
  value, otherwise success) and is compared with the handler's code further down.
\<close>

datatype claim_failure = ClaimAbsent | ClaimTypeMismatch | ClaimEmpty | ClaimValueMismatch

definition spec_claim_matcher :: "(string \<rightharpoonup> claim_value) \<Rightarrow> string \<Rightarrow> string \<Rightarrow> claim_failure option" where
  "spec_claim_matcher claims name val =
     (case claims name of
        None \<Rightarrow> Some ClaimAbsent
      | Some (CString s) \<Rightarrow>
          if s = [] then Some ClaimEmpty
          else if s \<noteq> val then Some ClaimValueMismatch
          else None
      | Some _ \<Rightarrow> Some ClaimTypeMismatch)"

subsection \<open>Example inputs\<close>

text \<open>
  A request carrying one \<open>authorization\<close> header and the two URL parameters, a request
  without any header, and collaborators that fail or succeed in a fixed way. They serve as
  concrete inputs below.
\<close>

definition example_request :: "string \<Rightarrow> string \<Rightarrow> string \<Rightarrow> request" where
  "example_request auth claim val =
     \<lparr>Header = [''authorization'' \<mapsto> [auth]], URLParams = [''claim'' \<mapsto> claim, ''value'' \<mapsto> val]\<rparr>"

definition bare_request :: request where
  "bare_request = \<lparr>Header = Map.empty, URLParams = Map.empty\<rparr>"

definition alice_claims :: "string \<rightharpoonup> claim_value" where
  "alice_claims = [''username'' \<mapsto> CString ''alice@example.com'', ''age'' \<mapsto> CNumber 30,
     ''nickname'' \<mapsto> CString []]"

definition introspect_ok :: "bool \<Rightarrow> (string \<rightharpoonup> claim_value) \<Rightarrow> string \<Rightarrow> go_error + IntrospectionResponse" where
  "introspect_ok active claims token = Inr \<lparr>Active = active, Claims = claims\<rparr>"

definition introspect_fails :: "string \<Rightarrow> string \<Rightarrow> go_error + IntrospectionResponse" where
  "introspect_fails msg token = Inl (GoError msg)"

definition marshal_ok :: "IntrospectionResponse \<Rightarrow> go_error + string" where
  \<open>marshal_ok resp = Inr (if Active resp then ''{"active":true}'' else ''{"active":false}'')\<close>

text \<open>An introspection call that knows a single token and fails for every other one.\<close>

definition introspect_only :: "string \<Rightarrow> IntrospectionResponse \<Rightarrow> string \<Rightarrow> go_error + IntrospectionResponse" where
  "introspect_only known resp token = (if token = known then Inr resp else Inl (GoError ''token unknown''))"

section \<open>Properties\<close>

subsection \<open>Auxiliary facts\<close>

lemma strings_HasPrefix_prefix: "strings_HasPrefix s pre \<longleftrightarrow> prefix pre s"
proof
  assume "strings_HasPrefix s pre"
  then have "take (length pre) s = pre"
    by (simp add: strings_HasPrefix_def)
  then show "prefix pre s"
    by (metis take_is_prefix)
next
  assume "prefix pre s"
  then obtain zs where "s = pre @ zs"
    by (auto simp: prefix_def)
  then show "strings_HasPrefix s pre"
    by (simp add: strings_HasPrefix_def)
qed

lemma strings_TrimPrefix_append: "strings_TrimPrefix (pre @ t) pre = t"
  by (simp add: strings_TrimPrefix_def strings_HasPrefix_def)

lemma PrefixBearer_not_Nil: "PrefixBearer \<noteq> []"
  by (simp add: PrefixBearer_def)

lemma http_Error_new_writer:
  "http_Error new_writer msg code = \<lparr>status = Some code, body = msg @ [CHR 0x0A]\<rparr>"
  by (simp add: http_Error_def fmt_Fprintln_def Write_def WriteHeader_def new_writer_def)

lemma Write_new_writer: "Write new_writer data = \<lparr>status = Some StatusOK, body = data\<rparr>"
  by (simp add: Write_def WriteHeader_def new_writer_def)

lemma response_status_Some: "response_status \<lparr>status = Some code, body = b\<rparr> = code"
  by (simp add: response_status_def)

lemma checkToken_missing:
  "Header_Get (Header r) ''authorization'' = [] \<Longrightarrow>
   checkToken w r = (http_Error w ''auth header missing'' StatusUnauthorized, False, [])"
  by (simp add: checkToken_def)

lemma checkToken_invalid:
  "Header_Get (Header r) ''authorization'' \<noteq> [] \<Longrightarrow>
   \<not> prefix PrefixBearer (Header_Get (Header r) ''authorization'') \<Longrightarrow>
   checkToken w r = (http_Error w ''invalid header'' StatusUnauthorized, False, [])"
  by (simp add: checkToken_def strings_HasPrefix_prefix)

lemma checkToken_bearer:
  "Header_Get (Header r) ''authorization'' = PrefixBearer @ t \<Longrightarrow> checkToken w r = (w, True, t)"
  by (simp add: checkToken_def Let_def strings_HasPrefix_prefix strings_TrimPrefix_append
      PrefixBearer_not_Nil)

lemma protected_handler_rejected:
  "checkToken w r = (w1, False, t) \<Longrightarrow> protected_handler Introspect json_Marshal w r = (w1, [])"
  by (simp add: protected_handler_def)

lemma protected_claim_handler_rejected:
  "checkToken w r = (w1, False, t) \<Longrightarrow> protected_claim_handler Introspect w r = (w1, [])"
  by (simp add: protected_claim_handler_def)

lemma protected_handler_bearer:
  "Header_Get (Header r) ''authorization'' = PrefixBearer @ t \<Longrightarrow>
   protected_handler Introspect json_Marshal w r =
     (case Introspect t of
        Inl err \<Rightarrow> (http_Error w (Error err) StatusForbidden, [t])
      | Inr resp \<Rightarrow>
          (case json_Marshal resp of
             Inl err \<Rightarrow> (http_Error w (Error err) StatusInternalServerError, [t])
           | Inr data \<Rightarrow> (Write w data, [t])))"
  by (simp add: protected_handler_def checkToken_bearer)

lemma protected_claim_handler_bearer:
  "Header_Get (Header r) ''authorization'' = PrefixBearer @ t \<Longrightarrow>
   protected_claim_handler Introspect w r =
     (case Introspect t of
        Inl err \<Rightarrow> (http_Error w (Error err) StatusForbidden, [t])
      | Inr resp \<Rightarrow>
          (case assert_string (Claims resp (URLParam r ''claim'')) of
             (val, ok) \<Rightarrow>
               if \<not> ok \<or> val = [] \<or> val \<noteq> URLParam r ''value''
               then (http_Error w ''claim does not match'' StatusForbidden, [t])
               else (Write w (''authorized with value '' @ val), [t])))"
  by (simp add: protected_claim_handler_def checkToken_bearer Let_def split: sum.split)

lemma Header_Get_example_request [simp]:
  "Header_Get (Header (example_request auth claim val)) ''authorization'' = auth"
  by (simp add: Header_Get_def example_request_def)

lemma URLParam_example_request [simp]:
  "URLParam (example_request auth claim val) ''claim'' = claim"
  "URLParam (example_request auth claim val) ''value'' = val"
  by (simp_all add: URLParam_def example_request_def)

lemma Header_Get_bare_request [simp]: "Header_Get (Header bare_request) key = []"
  by (simp add: Header_Get_def bare_request_def)

lemma spec_claim_matcher_cases:
  "spec_claim_matcher claims name val = Some ClaimAbsent \<longleftrightarrow> claims name = None"
  "spec_claim_matcher claims name val = Some ClaimTypeMismatch \<longleftrightarrow>
     (\<exists>v. claims name = Some v \<and> (\<forall>s. v \<noteq> CString s))"
  "spec_claim_matcher claims name val = Some ClaimEmpty \<longleftrightarrow> claims name = Some (CString [])"
  "spec_claim_matcher claims name val = Some ClaimValueMismatch \<longleftrightarrow>
     (\<exists>s. claims name = Some (CString s) \<and> s \<noteq> [] \<and> s \<noteq> val)"
  "spec_claim_matcher claims name val = None \<longleftrightarrow> claims name = Some (CString val) \<and> val \<noteq> []"
  by (auto simp: spec_claim_matcher_def split: option.splits claim_value.splits)

subsection \<open>Requests without a usable bearer header\<close>

text \<open>
  C3. On both protected routes: when \<open>Header.Get("authorization")\<close> is the empty string the
  response is 401 with the message of the missing header, and when it is non-empty but
  does not start with \<open>Bearer\<close> and a space the response is 401 with the message of the
  invalid header. The empty header gets the first answer although it lacks the prefix
  too. In both cases the list of tokens passed to the introspection call is empty.
\<close>

theorem checkToken_unauthorized:
  "let auth = Header_Get (Header r) ''authorization'';
       p = protected_handler Introspect json_Marshal new_writer r;
       c = protected_claim_handler Introspect new_writer r
   in (auth = [] \<longrightarrow>
         response_status (fst p) = 401 \<and> body (fst p) = ''auth header missing'' @ [CHR 0x0A] \<and> snd p = [] \<and>
         response_status (fst c) = 401 \<and> body (fst c) = ''auth header missing'' @ [CHR 0x0A] \<and> snd c = []) \<and>
      (auth \<noteq> [] \<and> \<not> prefix ''Bearer '' auth \<longrightarrow>
         response_status (fst p) = 401 \<and> body (fst p) = ''invalid header'' @ [CHR 0x0A] \<and> snd p = [] \<and>
         response_status (fst c) = 401 \<and> body (fst c) = ''invalid header'' @ [CHR 0x0A] \<and> snd c = [])"
  (is "let auth = ?auth; p = ?p; c = ?c in _")
  unfolding Let_def
proof (intro conjI impI)
  assume "?auth = []"
  then have ct: "checkToken new_writer r =
      (http_Error new_writer ''auth header missing'' StatusUnauthorized, False, [])"
    by (rule checkToken_missing)
  show "response_status (fst ?p) = 401" "body (fst ?p) = ''auth header missing'' @ [CHR 0x0A]"
    "snd ?p = []"
    by (simp_all add: protected_handler_rejected [OF ct] http_Error_new_writer
        response_status_Some StatusUnauthorized_def)
  show "response_status (fst ?c) = 401" "body (fst ?c) = ''auth header missing'' @ [CHR 0x0A]"
    "snd ?c = []"
    by (simp_all add: protected_claim_handler_rejected [OF ct] http_Error_new_writer
        response_status_Some StatusUnauthorized_def)
next
  assume "?auth \<noteq> [] \<and> \<not> prefix ''Bearer '' ?auth"
  then have ct: "checkToken new_writer r =
      (http_Error new_writer ''invalid header'' StatusUnauthorized, False, [])"
    by (simp add: checkToken_invalid PrefixBearer_def)
  show "response_status (fst ?p) = 401" "body (fst ?p) = ''invalid header'' @ [CHR 0x0A]"
    "snd ?p = []"
    by (simp_all add: protected_handler_rejected [OF ct] http_Error_new_writer
        response_status_Some StatusUnauthorized_def)
  show "response_status (fst ?c) = 401" "body (fst ?c) = ''invalid header'' @ [CHR 0x0A]"
    "snd ?c = []"
    by (simp_all add: protected_claim_handler_rejected [OF ct] http_Error_new_writer
        response_status_Some StatusUnauthorized_def)
qed

theorem checkToken_unauthorized_witness:
  "Header_Get (Header bare_request) ''authorization'' = [] \<and>
   response_status (fst (protected_handler (introspect_ok True alice_claims) marshal_ok new_writer bare_request)) = 401 \<and>
   snd (protected_claim_handler (introspect_ok True alice_claims) new_writer bare_request) = [] \<and>
   Header_Get (Header (example_request ''bearer abc'' ''username'' ''x'')) ''authorization'' \<noteq> [] \<and>
   \<not> prefix ''Bearer '' ''bearer abc'' \<and>
   response_status (fst (protected_claim_handler (introspect_ok True alice_claims) new_writer
     (example_request ''bearer abc'' ''username'' ''x''))) = 401 \<and>
   body (fst (protected_handler (introspect_ok True alice_claims) marshal_ok new_writer
     (example_request ''bearer abc'' ''username'' ''x''))) = ''invalid header'' @ [CHR 0x0A] \<and>
   snd (protected_handler (introspect_ok True alice_claims) marshal_ok new_writer
     (example_request ''bearer abc'' ''username'' ''x'')) = []"
  using checkToken_unauthorized [of bare_request "introspect_ok True alice_claims" marshal_ok]
    checkToken_unauthorized [of "example_request ''bearer abc'' ''username'' ''x''"
      "introspect_ok True alice_claims" marshal_ok]
  by (simp add: Let_def)

subsection \<open>The token that is extracted and introspected\<close>

text \<open>
  C7. When the authorization header is \<open>Bearer\<close>, a space, and then any text \<open>t\<close>,
  \<open>checkToken\<close> writes nothing, succeeds and returns exactly \<open>t\<close>, with no trimming and
  also when \<open>t\<close> is empty. On both protected routes \<open>t\<close> is the one token passed to the
  introspection call, and the answer of the call at \<open>t\<close> is what the handler goes on
  with: an error gives 403 with the error's text, a response goes to the encoder on
  \<open>/protected\<close> and to the claim check on the claim route.
\<close>

theorem checkToken_returns_remainder:
  "Header_Get (Header r) ''authorization'' = ''Bearer '' @ t \<Longrightarrow>
   checkToken w r = (w, True, t) \<and>
   snd (protected_handler Introspect json_Marshal w r) = [t] \<and>
   snd (protected_claim_handler Introspect w r) = [t] \<and>
   protected_handler Introspect json_Marshal w r =
     (case Introspect t of
        Inl err \<Rightarrow> (http_Error w (Error err) StatusForbidden, [t])
      | Inr resp \<Rightarrow>
          (case json_Marshal resp of
             Inl err \<Rightarrow> (http_Error w (Error err) StatusInternalServerError, [t])
           | Inr data \<Rightarrow> (Write w data, [t]))) \<and>
   protected_claim_handler Introspect w r =
     (case Introspect t of
        Inl err \<Rightarrow> (http_Error w (Error err) StatusForbidden, [t])
      | Inr resp \<Rightarrow>
          (case assert_string (Claims resp (URLParam r ''claim'')) of
             (val, ok) \<Rightarrow>
               if \<not> ok \<or> val = [] \<or> val \<noteq> URLParam r ''value''
               then (http_Error w ''claim does not match'' StatusForbidden, [t])
               else (Write w (''authorized with value '' @ val), [t])))"
proof -
  assume "Header_Get (Header r) ''authorization'' = ''Bearer '' @ t"
  then have h: "Header_Get (Header r) ''authorization'' = PrefixBearer @ t"
    by (simp add: PrefixBearer_def)
  have "snd (protected_handler Introspect json_Marshal w r) = [t]"
    by (simp add: protected_handler_bearer [OF h] split: sum.split)
  moreover have "snd (protected_claim_handler Introspect w r) = [t]"
    by (simp add: protected_claim_handler_bearer [OF h] split: sum.split prod.split)
  moreover note checkToken_bearer [OF h, of w]
    protected_handler_bearer [OF h, of Introspect json_Marshal w]
    protected_claim_handler_bearer [OF h, of Introspect w]
  ultimately show ?thesis
    by (intro conjI)
qed

text \<open>
  At concrete inputs: the token keeps its leading, inner and trailing spaces, and the
  empty token is passed on as well. An introspection call that knows only the token with
  its spaces answers the request, so the response is 200; one that knows only the
  trimmed token does not, so the response is 403.
\<close>

theorem checkToken_returns_remainder_witness:
  \<open>checkToken new_writer (example_request ''Bearer  tok en '' ''username'' ''x'') =
     (new_writer, True, '' tok en '') \<and>
   checkToken new_writer (example_request ''Bearer '' ''username'' ''x'') = (new_writer, True, []) \<and>
   snd (protected_handler (introspect_fails ''no route to host'') marshal_ok new_writer
     (example_request ''Bearer '' ''username'' ''x'')) = [[]] \<and>
   protected_handler (introspect_only '' tok en '' \<lparr>Active = True, Claims = alice_claims\<rparr>) marshal_ok
     new_writer (example_request ''Bearer  tok en '' ''username'' ''x'') =
     (\<lparr>status = Some 200, body = ''{"active":true}''\<rparr>, ['' tok en '']) \<and>
   protected_handler (introspect_only ''tok en'' \<lparr>Active = True, Claims = alice_claims\<rparr>) marshal_ok
     new_writer (example_request ''Bearer  tok en '' ''username'' ''x'') =
     (\<lparr>status = Some 403, body = ''token unknown'' @ [CHR 0x0A]\<rparr>, ['' tok en '']) \<and>
   protected_claim_handler (introspect_only '' tok en '' \<lparr>Active = True, Claims = alice_claims\<rparr>)
     new_writer (example_request ''Bearer  tok en '' ''username'' ''alice@example.com'') =
     (\<lparr>status = Some 200, body = ''authorized with value alice@example.com''\<rparr>, ['' tok en ''])\<close>
  using checkToken_returns_remainder [of "example_request ''Bearer  tok en '' ''username'' ''x''"
      "'' tok en ''" new_writer "introspect_fails ''no route to host''" marshal_ok]
    checkToken_returns_remainder [of "example_request ''Bearer '' ''username'' ''x''" "[]"
      new_writer "introspect_fails ''no route to host''" marshal_ok]
    checkToken_returns_remainder [of "example_request ''Bearer  tok en '' ''username'' ''x''"
      "'' tok en ''" new_writer
      "introspect_only '' tok en '' \<lparr>Active = True, Claims = alice_claims\<rparr>" marshal_ok]
    checkToken_returns_remainder [of "example_request ''Bearer  tok en '' ''username'' ''x''"
      "'' tok en ''" new_writer
      "introspect_only ''tok en'' \<lparr>Active = True, Claims = alice_claims\<rparr>" marshal_ok]
    checkToken_returns_remainder [of
      "example_request ''Bearer  tok en '' ''username'' ''alice@example.com''"
      "'' tok en ''" new_writer
      "introspect_only '' tok en '' \<lparr>Active = True, Claims = alice_claims\<rparr>" marshal_ok]
  by (simp add: introspect_only_def introspect_fails_def marshal_ok_def alice_claims_def
      assert_string_def http_Error_new_writer Write_new_writer StatusOK_def StatusForbidden_def)

subsection \<open>The public route\<close>

text \<open>
  C8. Whatever the request, the handler of \<open>/public\<close> answers with status 200 and the body
  \<open>OK\<close>, a space, and the text of the current time. It neither reads the request nor has
  access to the introspection call.
\<close>

theorem public_handler_ok:
  "response_status (public_handler now new_writer r) = 200 \<and>
   body (public_handler now new_writer r) = ''OK '' @ now"
  by (simp add: public_handler_def Write_new_writer response_status_Some StatusOK_def)

subsection \<open>An empty claim never matches\<close>

text \<open>
  C4. On the claim route, with a bearer header and a successful introspection, when the
  requested claim is stored as the empty string the response is 403 with the message that
  the claim does not match, whatever the requested value is, the empty one included.
\<close>

theorem empty_claim_forbidden:
  "Header_Get (Header r) ''authorization'' = ''Bearer '' @ t \<Longrightarrow>
   Introspect t = Inr resp \<Longrightarrow>
   Claims resp (URLParam r ''claim'') = Some (CString []) \<Longrightarrow>
   response_status (fst (protected_claim_handler Introspect new_writer r)) = 403 \<and>
   body (fst (protected_claim_handler Introspect new_writer r)) = ''claim does not match'' @ [CHR 0x0A]"
proof -
  assume "Header_Get (Header r) ''authorization'' = ''Bearer '' @ t"
    and i: "Introspect t = Inr resp"
    and c: "Claims resp (URLParam r ''claim'') = Some (CString [])"
  then have h: "Header_Get (Header r) ''authorization'' = PrefixBearer @ t"
    by (simp add: PrefixBearer_def)
  have "fst (protected_claim_handler Introspect new_writer r) =
      http_Error new_writer ''claim does not match'' StatusForbidden"
    by (simp add: protected_claim_handler_bearer [OF h] i c assert_string_def)
  then show ?thesis
    by (simp add: http_Error_new_writer response_status_Some StatusForbidden_def)
qed

theorem empty_claim_forbidden_witness:
  "response_status (fst (protected_claim_handler (introspect_ok True alice_claims) new_writer
     (example_request ''Bearer abc'' ''nickname'' []))) = 403 \<and>
   response_status (fst (protected_claim_handler (introspect_ok True alice_claims) new_writer
     (example_request ''Bearer abc'' ''nickname'' ''bob''))) = 403"
  using empty_claim_forbidden [of "example_request ''Bearer abc'' ''nickname'' []" "''abc''"
      "introspect_ok True alice_claims" "\<lparr>Active = True, Claims = alice_claims\<rparr>"]
    empty_claim_forbidden [of "example_request ''Bearer abc'' ''nickname'' ''bob''" "''abc''"
      "introspect_ok True alice_claims" "\<lparr>Active = True, Claims = alice_claims\<rparr>"]
  by (simp add: introspect_ok_def alice_claims_def)

subsection \<open>Inactive tokens\<close>

text \<open>
  C1. The comment above the handler of \<open>/protected\<close> asks for an active token, but neither
  handler reads \<open>Active\<close>. At the input below the introspection call succeeds with
  \<open>active\<close> false and no claims, and the response is 200 with the serialised introspection
  response, not 403.
\<close>

theorem inactive_token_served:
  \<open>response_status (fst (protected_handler (introspect_ok False Map.empty) marshal_ok new_writer
     (example_request ''Bearer abc'' [] []))) = 200 \<and>
   body (fst (protected_handler (introspect_ok False Map.empty) marshal_ok new_writer
     (example_request ''Bearer abc'' [] []))) = ''{"active":false}''\<close>
proof -
  have h: "Header_Get (Header (example_request ''Bearer abc'' [] [])) ''authorization'' =
      PrefixBearer @ ''abc''"
    by (simp add: PrefixBearer_def)
  show ?thesis
    by (simp add: protected_handler_bearer [OF h] introspect_ok_def marshal_ok_def Write_new_writer
        response_status_Some StatusOK_def)
qed

subsection \<open>The outcome of the claim route\<close>

text \<open>
  C2, as stated, at a concrete input: the stored user name differs from the requested
  one, the status is 403, and the body is not the bare message, because \<open>http.Error\<close>
  ends the message with a line feed.
\<close>

theorem claim_mismatch_body_has_line_feed:
  "response_status (fst (protected_claim_handler (introspect_ok True alice_claims) new_writer
     (example_request ''Bearer abc'' ''username'' ''bob@example.com''))) = 403 \<and>
   body (fst (protected_claim_handler (introspect_ok True alice_claims) new_writer
     (example_request ''Bearer abc'' ''username'' ''bob@example.com''))) \<noteq> ''claim does not match''"
proof -
  have h: "Header_Get (Header (example_request ''Bearer abc'' ''username'' ''bob@example.com''))
      ''authorization'' = PrefixBearer @ ''abc''"
    by (simp add: PrefixBearer_def)
  show ?thesis
    by (simp add: protected_claim_handler_bearer [OF h] introspect_ok_def alice_claims_def
        assert_string_def http_Error_new_writer response_status_Some StatusForbidden_def)
qed

text \<open>
  C2, amended. On the claim route, with a bearer header and a successful introspection:
  when the requested claim is absent, or present but not a string, or a string unequal to
  the requested value, the response is 403 and its body is the message that the claim
  does not match followed by a line feed; when it is a non-empty string equal to the
  requested value, compared as it stands, the response is 200 and its body is
  \<open>authorized with value\<close>, a space, and the value.
\<close>

theorem claim_route_outcome:
  "Header_Get (Header r) ''authorization'' = ''Bearer '' @ t \<Longrightarrow>
   Introspect t = Inr resp \<Longrightarrow>
   (let stored = Claims resp (URLParam r ''claim'');
        val = URLParam r ''value'';
        w = fst (protected_claim_handler Introspect new_writer r)
    in ((stored = None \<or> (\<exists>v. stored = Some v \<and> (\<forall>s. v \<noteq> CString s)) \<or>
         (\<exists>s. stored = Some (CString s) \<and> s \<noteq> val)) \<longrightarrow>
          response_status w = 403 \<and> body w = ''claim does not match'' @ [CHR 0x0A]) \<and>
       (stored = Some (CString val) \<and> val \<noteq> [] \<longrightarrow>
          response_status w = 200 \<and> body w = ''authorized with value '' @ val))"
proof -
  assume "Header_Get (Header r) ''authorization'' = ''Bearer '' @ t" and i: "Introspect t = Inr resp"
  then have h: "Header_Get (Header r) ''authorization'' = PrefixBearer @ t"
    by (simp add: PrefixBearer_def)
  note eq = protected_claim_handler_bearer [OF h, of Introspect new_writer]
  show ?thesis
  proof (cases "Claims resp (URLParam r ''claim'')")
    case None
    then show ?thesis
      by (simp add: eq i assert_string_def http_Error_new_writer response_status_Some
          StatusForbidden_def)
  next
    case (Some v)
    then show ?thesis
      by (cases v)
        (simp_all add: eq i assert_string_def http_Error_new_writer Write_new_writer
          response_status_Some StatusForbidden_def StatusOK_def)
  qed
qed

theorem claim_route_outcome_witness:
  "body (fst (protected_claim_handler (introspect_ok True alice_claims) new_writer
     (example_request ''Bearer abc'' ''email'' ''alice@example.com''))) = ''claim does not match'' @ [CHR 0x0A] \<and>
   response_status (fst (protected_claim_handler (introspect_ok True alice_claims) new_writer
     (example_request ''Bearer abc'' ''age'' ''30''))) = 403 \<and>
   response_status (fst (protected_claim_handler (introspect_ok True alice_claims) new_writer
     (example_request ''Bearer abc'' ''username'' ''Alice@example.com''))) = 403 \<and>
   response_status (fst (protected_claim_handler (introspect_ok True alice_claims) new_writer
     (example_request ''Bearer abc'' ''username'' ''alice@example.com''))) = 200 \<and>
   body (fst (protected_claim_handler (introspect_ok True alice_claims) new_writer
     (example_request ''Bearer abc'' ''username'' ''alice@example.com''))) =
     ''authorized with value alice@example.com''"
  using claim_route_outcome [of "example_request ''Bearer abc'' ''email'' ''alice@example.com''"
      "''abc''" "introspect_ok True alice_claims" "\<lparr>Active = True, Claims = alice_claims\<rparr>"]
    claim_route_outcome [of "example_request ''Bearer abc'' ''age'' ''30''"
      "''abc''" "introspect_ok True alice_claims" "\<lparr>Active = True, Claims = alice_claims\<rparr>"]
    claim_route_outcome [of "example_request ''Bearer abc'' ''username'' ''Alice@example.com''"
      "''abc''" "introspect_ok True alice_claims" "\<lparr>Active = True, Claims = alice_claims\<rparr>"]
    claim_route_outcome [of "example_request ''Bearer abc'' ''username'' ''alice@example.com''"
      "''abc''" "introspect_ok True alice_claims" "\<lparr>Active = True, Claims = alice_claims\<rparr>"]
  by (simp add: Let_def introspect_ok_def alice_claims_def)

subsection \<open>A failing introspection call\<close>

text \<open>
  C5, as stated, at a concrete input: the introspection call fails with an error whose
  text quotes the body the authority sent, and that body stands verbatim in the body of
  the response of both protected routes.
\<close>

theorem introspection_error_reaches_caller:
  \<open>sublist ''{"error":"server_error"}''
     (body (fst (protected_handler
        (introspect_fails ''http status not ok: 500 Internal Server Error {"error":"server_error"}'')
        marshal_ok new_writer (example_request ''Bearer abc'' [] [])))) \<and>
   sublist ''{"error":"server_error"}''
     (body (fst (protected_claim_handler
        (introspect_fails ''http status not ok: 500 Internal Server Error {"error":"server_error"}'')
        new_writer (example_request ''Bearer abc'' ''username'' ''alice@example.com''))))\<close>
proof -
  have h: "Header_Get (Header (example_request ''Bearer abc'' c v)) ''authorization'' =
      PrefixBearer @ ''abc''" for c v
    by (simp add: PrefixBearer_def)
  have s: \<open>sublist ''{"error":"server_error"}''
      (''http status not ok: 500 Internal Server Error {"error":"server_error"}'' @ [CHR 0x0A])\<close>
    unfolding sublist_def
    by (rule exI [of _ "''http status not ok: 500 Internal Server Error ''"],
        rule exI [of _ "[CHR 0x0A]"]) simp
  show ?thesis
    using s
    by (simp add: protected_handler_bearer [OF h] protected_claim_handler_bearer [OF h]
        introspect_fails_def http_Error_new_writer)
qed

text \<open>
  C5, amended. On both protected routes, with a bearer header, when the introspection call
  returns an error the response is 403 and its body is the full text of that error,
  unchanged, followed by a line feed. The handlers neither shorten nor replace the text.
\<close>

theorem introspection_failure_forbidden:
  "Header_Get (Header r) ''authorization'' = ''Bearer '' @ t \<Longrightarrow>
   Introspect t = Inl err \<Longrightarrow>
   response_status (fst (protected_handler Introspect json_Marshal new_writer r)) = 403 \<and>
   body (fst (protected_handler Introspect json_Marshal new_writer r)) = Error err @ [CHR 0x0A] \<and>
   response_status (fst (protected_claim_handler Introspect new_writer r)) = 403 \<and>
   body (fst (protected_claim_handler Introspect new_writer r)) = Error err @ [CHR 0x0A]"
proof -
  assume "Header_Get (Header r) ''authorization'' = ''Bearer '' @ t" and i: "Introspect t = Inl err"
  then have h: "Header_Get (Header r) ''authorization'' = PrefixBearer @ t"
    by (simp add: PrefixBearer_def)
  show ?thesis
    by (simp add: protected_handler_bearer [OF h] protected_claim_handler_bearer [OF h] i
        http_Error_new_writer response_status_Some StatusForbidden_def)
qed

theorem introspection_failure_forbidden_witness:
  "response_status (fst (protected_handler (introspect_fails ''dial tcp: connection refused'')
     marshal_ok new_writer (example_request ''Bearer abc'' [] []))) = 403 \<and>
   body (fst (protected_claim_handler (introspect_fails ''dial tcp: connection refused'')
     new_writer (example_request ''Bearer abc'' [] []))) = ''dial tcp: connection refused'' @ [CHR 0x0A]"
  using introspection_failure_forbidden [of "example_request ''Bearer abc'' [] []" "''abc''"
      "introspect_fails ''dial tcp: connection refused''" "GoError ''dial tcp: connection refused''"
      marshal_ok]
  by (simp add: introspect_fails_def)

subsection \<open>Kinds of claim failure\<close>

text \<open>
  C6, as stated, negated: it is not the case that every two distinct failure kinds have
  inputs which the results of the type assertion, the string and the flag, tell apart.
  An absent claim and a claim of another type both give the empty string and \<open>false\<close>.
\<close>

theorem absent_and_mistyped_claim_alike:
  "\<not> (\<forall>k1 k2. k1 \<noteq> k2 \<longrightarrow>
        (\<exists>claims1 name1 val1 claims2 name2 val2.
           spec_claim_matcher claims1 name1 val1 = Some k1 \<and>
           spec_claim_matcher claims2 name2 val2 = Some k2 \<and>
           assert_string (claims1 name1) \<noteq> assert_string (claims2 name2)))"
proof
  assume "\<forall>k1 k2. k1 \<noteq> k2 \<longrightarrow>
        (\<exists>claims1 name1 val1 claims2 name2 val2.
           spec_claim_matcher claims1 name1 val1 = Some k1 \<and>
           spec_claim_matcher claims2 name2 val2 = Some k2 \<and>
           assert_string (claims1 name1) \<noteq> assert_string (claims2 name2))"
  then obtain claims1 name1 val1 claims2 name2 val2
    where a: "spec_claim_matcher claims1 name1 val1 = Some ClaimAbsent"
      and m: "spec_claim_matcher claims2 name2 val2 = Some ClaimTypeMismatch"
      and d: "assert_string (claims1 name1) \<noteq> assert_string (claims2 name2)"
    by (metis claim_failure.distinct(1))
  from a have "assert_string (claims1 name1) = ([], False)"
    by (simp add: spec_claim_matcher_cases assert_string_def)
  moreover from m have "assert_string (claims2 name2) = ([], False)"
    by (auto simp: spec_claim_matcher_cases assert_string_def split: claim_value.splits)
  ultimately show False
    using d by simp
qed

text \<open>
  C6, amended. On the claim route, with a bearer header and a successful introspection,
  every failure kind of the specification's matcher gives the same response, 403 with the
  message that the claim does not match and a line feed. The two results of the type
  assertion separate three groups: the flag is false exactly for an absent claim and for
  a claim of another type, and then the string is empty; the flag is true with an empty
  string exactly for the empty claim; the flag is true with a non-empty string different
  from the requested value exactly for the value mismatch.
\<close>

theorem claim_failures_forbidden:
  "Header_Get (Header r) ''authorization'' = ''Bearer '' @ t \<Longrightarrow>
   Introspect t = Inr resp \<Longrightarrow>
   (let kind = spec_claim_matcher (Claims resp) (URLParam r ''claim'') (URLParam r ''value'');
        (val, ok) = assert_string (Claims resp (URLParam r ''claim''));
        w = fst (protected_claim_handler Introspect new_writer r)
    in (kind \<noteq> None \<longrightarrow>
          response_status w = 403 \<and> body w = ''claim does not match'' @ [CHR 0x0A]) \<and>
       (kind = Some ClaimAbsent \<or> kind = Some ClaimTypeMismatch \<longleftrightarrow> \<not> ok) \<and>
       (\<not> ok \<longrightarrow> val = []) \<and>
       (kind = Some ClaimEmpty \<longleftrightarrow> ok \<and> val = []) \<and>
       (kind = Some ClaimValueMismatch \<longleftrightarrow> ok \<and> val \<noteq> [] \<and> val \<noteq> URLParam r ''value''))"
proof -
  assume "Header_Get (Header r) ''authorization'' = ''Bearer '' @ t" and i: "Introspect t = Inr resp"
  then have h: "Header_Get (Header r) ''authorization'' = PrefixBearer @ t"
    by (simp add: PrefixBearer_def)
  note eq = protected_claim_handler_bearer [OF h, of Introspect new_writer]
  show ?thesis
  proof (cases "Claims resp (URLParam r ''claim'')")
    case None
    then show ?thesis
      by (simp add: eq i assert_string_def spec_claim_matcher_def http_Error_new_writer
          response_status_Some StatusForbidden_def)
  next
    case (Some v)
    then show ?thesis
      by (cases v)
        (simp_all add: eq i assert_string_def spec_claim_matcher_def http_Error_new_writer
          Write_new_writer response_status_Some StatusForbidden_def)
  qed
qed

theorem claim_failures_forbidden_witness:
  "spec_claim_matcher alice_claims ''email'' ''x'' = Some ClaimAbsent \<and>
   spec_claim_matcher alice_claims ''age'' ''x'' = Some ClaimTypeMismatch \<and>
   spec_claim_matcher alice_claims ''nickname'' ''x'' = Some ClaimEmpty \<and>
   spec_claim_matcher alice_claims ''username'' ''x'' = Some ClaimValueMismatch \<and>
   response_status (fst (protected_claim_handler (introspect_ok True alice_claims) new_writer
     (example_request ''Bearer abc'' ''email'' ''x''))) = 403 \<and>
   response_status (fst (protected_claim_handler (introspect_ok True alice_claims) new_writer
     (example_request ''Bearer abc'' ''age'' ''x''))) = 403 \<and>
   response_status (fst (protected_claim_handler (introspect_ok True alice_claims) new_writer
     (example_request ''Bearer abc'' ''nickname'' ''x''))) = 403 \<and>
   response_status (fst (protected_claim_handler (introspect_ok True alice_claims) new_writer
     (example_request ''Bearer abc'' ''username'' ''x''))) = 403 \<and>
   assert_string (alice_claims ''email'') = assert_string (alice_claims ''age'') \<and>
   assert_string (alice_claims ''nickname'') = ([], True) \<and>
   assert_string (alice_claims ''username'') = (''alice@example.com'', True)"
  using claim_failures_forbidden [of "example_request ''Bearer abc'' ''email'' ''x''"
      "''abc''" "introspect_ok True alice_claims" "\<lparr>Active = True, Claims = alice_claims\<rparr>"]
    claim_failures_forbidden [of "example_request ''Bearer abc'' ''age'' ''x''"
      "''abc''" "introspect_ok True alice_claims" "\<lparr>Active = True, Claims = alice_claims\<rparr>"]
    claim_failures_forbidden [of "example_request ''Bearer abc'' ''nickname'' ''x''"
      "''abc''" "introspect_ok True alice_claims" "\<lparr>Active = True, Claims = alice_claims\<rparr>"]
    claim_failures_forbidden [of "example_request ''Bearer abc'' ''username'' ''x''"
      "''abc''" "introspect_ok True alice_claims" "\<lparr>Active = True, Claims = alice_claims\<rparr>"]
  by (simp add: Let_def introspect_ok_def alice_claims_def spec_claim_matcher_def assert_string_def)

end
